theory Spec2Isabelle
  imports Complex_Main "HOL-Library.Log_Nat"
begin

section \<open>Python values that reach the handler\<close>

text \<open>
  The repository is one Flask handler, \<^verbatim>\<open>upscale()\<close> in \<^verbatim>\<open>backend/main.py\<close>. Its input is
  the value of \<^verbatim>\<open>request.json\<close>: any JSON value, as Python's \<^verbatim>\<open>json\<close> module decodes it
  (a request for which \<^verbatim>\<open>request.json\<close> itself raises never reaches the handler's code).
  A JSON object is an association list read with \<open>map_of\<close> (a Python \<^verbatim>\<open>dict\<close>).
\<close>

datatype pyfloat = Finite rat | Infinite bool | NaN

datatype json =
    JNull
  | JBool bool
  | JInt int
  | JFloat pyfloat
  | JStr string
  | JArr "json list"
  | JObj "(string \<times> json) list"

text \<open>
  Exceptions. The handler only ever looks at \<^verbatim>\<open>str(e)\<close>. \<open>AttributeError\<close> is raised by the
  handler's own attribute accesses; \<open>LibraryError\<close> stands for any exception that comes out of
  a collaborator (requests, tempfile, cv2, the upsampler, the cloud clients, os), carrying its
  \<^verbatim>\<open>str()\<close>.
\<close>

datatype pyexn = AttributeError string | LibraryError string

fun str_exn :: "pyexn \<Rightarrow> string" where
  "str_exn (AttributeError m) = m"
| "str_exn (LibraryError m) = m"

text \<open>Python truthiness, as used by \<^verbatim>\<open>if not data\<close> and \<^verbatim>\<open>if not request_id or not image_url\<close>.\<close>

fun truthy :: "json \<Rightarrow> bool" where
  "truthy JNull = False"
| "truthy (JBool b) = b"
| "truthy (JInt n) = (n \<noteq> 0)"
| "truthy (JFloat x) = (x \<noteq> Finite 0)"
| "truthy (JStr s) = (s \<noteq> [])"
| "truthy (JArr xs) = (xs \<noteq> [])"
| "truthy (JObj kvs) = (kvs \<noteq> [])"

fun type_name :: "json \<Rightarrow> string" where
  "type_name JNull = ''NoneType''"
| "type_name (JBool b) = ''bool''"
| "type_name (JInt n) = ''int''"
| "type_name (JFloat x) = ''float''"
| "type_name (JStr s) = ''str''"
| "type_name (JArr xs) = ''list''"
| "type_name (JObj kvs) = ''dict''"

definition no_attribute :: "string \<Rightarrow> string \<Rightarrow> pyexn" where
  "no_attribute ty attr =
     AttributeError ([CHR 0x27] @ ty @ [CHR 0x27] @ '' object has no attribute '' @
                     [CHR 0x27] @ attr @ [CHR 0x27])"

text \<open>\<^verbatim>\<open>data.get(key)\<close>: \<^verbatim>\<open>None\<close> for an absent key; only a dict has the method.\<close>

fun dict_get :: "json \<Rightarrow> string \<Rightarrow> pyexn + json" where
  "dict_get (JObj kvs) k = Inr (case map_of kvs k of None \<Rightarrow> JNull | Some v \<Rightarrow> v)"
| "dict_get v k = Inl (no_attribute (type_name v) ''get'')"

text \<open>
  Rendering inside an f-string. Strings render as themselves, \<^verbatim>\<open>None\<close> and the booleans by
  name; how Python prints numbers and containers is not part of this repository and is the
  parameter \<open>other\<close>.
\<close>

definition format_value :: "(json \<Rightarrow> string) \<Rightarrow> json \<Rightarrow> string" where
  "format_value other v =
     (case v of
        JStr s \<Rightarrow> s
      | JNull \<Rightarrow> ''None''
      | JBool b \<Rightarrow> (if b then ''True'' else ''False'')
      | _ \<Rightarrow> other v)"

section \<open>Double-precision arithmetic of the resize step\<close>

text \<open>
  \<^verbatim>\<open>scale_factor = max_size / max(h, w)\<close> is Python's true division of two ints and
  \<^verbatim>\<open>w * scale_factor\<close> an int times a float: both are IEEE binary64 operations, rounded to
  nearest with ties to even. A double is modelled by the rational it denotes. \<open>fl64\<close> rounds a
  rational to 53 significant bits; exponent range is not limited, which agrees with binary64 on
  the normal range (magnitudes between \<open>2^-1022\<close> and \<open>2^1024\<close>), and every value the resize
  step computes for image sizes below \<open>2^31\<close> lies there.
\<close>

definition ilog2 :: "rat \<Rightarrow> int" where
  "ilog2 q = (let (a, b) = quotient_of q; k = bitlen a - bitlen b
              in if 2 powi k \<le> q then k else k - 1)"

definition round_half_even :: "rat \<Rightarrow> int" where
  "round_half_even y =
     (let f = \<lfloor>y\<rfloor>; d = y - of_int f
      in if d < 1 / 2 then f else if 1 / 2 < d then f + 1 else if even f then f else f + 1)"

definition fl64 :: "rat \<Rightarrow> rat" where
  "fl64 q = (if q = 0 then 0
             else let e = ilog2 \<bar>q\<bar> - 52
                  in of_int (round_half_even (q / 2 powi e)) * 2 powi e)"

text \<open>\<^verbatim>\<open>a / b\<close> on ints (the divisor is never zero where the handler divides).\<close>

definition py_truediv :: "int \<Rightarrow> int \<Rightarrow> rat" where
  "py_truediv a b = fl64 (of_int a / of_int b)"

text \<open>\<^verbatim>\<open>n * x\<close> for an int \<open>n\<close> and a float \<open>x\<close>: the int is converted, then multiplied.\<close>

definition py_mul :: "int \<Rightarrow> rat \<Rightarrow> rat" where
  "py_mul n x = fl64 (fl64 (of_int n) * x)"

text \<open>\<^verbatim>\<open>int(x)\<close> on a float truncates toward zero.\<close>

definition py_int :: "rat \<Rightarrow> int" where
  "py_int x = (if 0 \<le> x then \<lfloor>x\<rfloor> else \<lceil>x\<rceil>)"

section \<open>Images and the resize step (lines 68 to 75)\<close>

record image =
  height :: nat
  width :: nat
  pixels :: "nat list"

record blob =
  content :: "nat list"
  content_type :: string
  is_public :: bool

record http_response =
  status_code :: nat
  http_error_msg :: string
  body :: "nat list"
  stream_error :: "pyexn option"

datatype fieldval = FStr string | FServerTimestamp

datatype event =
    HttpGet json
  | Inference nat nat
  | Upload string string
  | MakePublic string string
  | StoreUpdate json "(string \<times> fieldval) list"

text \<open>
  What the collaborators answer is not in the repository; a \<open>world\<close> fixes it for one run.
  \<^item> \<open>requests_get\<close>: \<^verbatim>\<open>requests.get(image_url, stream=True)\<close>, an exception or a response;
    \<open>status_code\<close> is the status of the response, \<open>http_error_msg\<close> the message requests
    builds for an error status (status, reason and URL), \<open>body\<close> the bytes \<^verbatim>\<open>iter_content\<close>
    delivers and \<open>stream_error\<close> an exception that ends the stream.
  \<^item> \<open>tmp_png\<close>, \<open>tmp_jpg\<close>: the name \<^verbatim>\<open>NamedTemporaryFile(delete=False)\<close> creates, or its
    exception.
  \<^item> \<open>imread\<close>: \<^verbatim>\<open>cv2.imread\<close> on the file's bytes, \<open>None\<close> when they do not decode.
  \<^item> \<open>inter_area\<close>: the samples \<^verbatim>\<open>cv2.resize(..., INTER_AREA)\<close> computes for a target size.
  \<^item> \<open>enhance\<close>: \<^verbatim>\<open>upsampler.enhance(img, outscale=4)\<close>; \<open>imwrite\<close>: the JPEG bytes.
  \<^item> \<open>environ\<close>: \<^verbatim>\<open>os.environ.get\<close>; \<open>upload_fault\<close>, \<open>make_public_fault\<close>, \<open>public_url\<close>:
    the storage client, by bucket and blob name.
  \<^item> \<open>store_fault\<close>: an exception of the Firestore client for an update call, other than the
    missing document; \<open>not_found\<close>: the exception for a missing document.
  \<^item> \<open>remove_fault\<close>: an exception of \<^verbatim>\<open>os.remove\<close> for a file (it is locked, or another
    process has removed it).
  \<^item> \<open>str_other\<close>: Python's rendering of numbers and containers.
\<close>

record world =
  requests_get :: "json \<Rightarrow> pyexn + http_response"
  tmp_png :: "pyexn + string"
  imread :: "nat list \<Rightarrow> pyexn + image option"
  inter_area :: "image \<Rightarrow> nat \<Rightarrow> nat \<Rightarrow> nat list"
  enhance :: "image \<Rightarrow> pyexn + image"
  tmp_jpg :: "pyexn + string"
  imwrite :: "image \<Rightarrow> pyexn + nat list"
  environ :: "string \<Rightarrow> string option"
  upload_fault :: "string \<Rightarrow> string \<Rightarrow> pyexn option"
  make_public_fault :: "string \<Rightarrow> string \<Rightarrow> pyexn option"
  public_url :: "string \<Rightarrow> string \<Rightarrow> string"
  store_fault :: "json \<Rightarrow> (string \<times> fieldval) list \<Rightarrow> pyexn option"
  not_found :: "json \<Rightarrow> pyexn"
  remove_fault :: "string \<Rightarrow> pyexn option"
  str_other :: "json \<Rightarrow> string"

definition max_size :: int where
  "max_size = 4000"

text \<open>
  \<^verbatim>\<open>cv2.resize(img, (new_w, new_h), interpolation=cv2.INTER_AREA)\<close>. OpenCV asserts that the
  target size is not empty and raises \<^verbatim>\<open>cv2.error\<close> otherwise; the result has exactly the
  requested size.
\<close>

definition cv2_resize :: "world \<Rightarrow> image \<Rightarrow> int \<Rightarrow> int \<Rightarrow> pyexn + image" where
  "cv2_resize wd img new_w new_h =
     (if new_w \<le> 0 \<or> new_h \<le> 0
      then Inl (LibraryError ''(-215:Assertion failed) inv_scale_x > 0 in function resize'')
      else Inr \<lparr>height = nat new_h, width = nat new_w,
                pixels = inter_area wd img (nat new_w) (nat new_h)\<rparr>)"

text \<open>The pair \<open>(new_w, new_h)\<close> of lines 71 to 73.\<close>

definition resize_dims :: "nat \<Rightarrow> nat \<Rightarrow> int \<times> int" where
  "resize_dims h w =
     (let scale_factor = py_truediv max_size (int (max h w));
          new_w = py_int (py_mul (int w) scale_factor);
          new_h = py_int (py_mul (int h) scale_factor)
      in (new_w, new_h))"

text \<open>Step 2.5 of the handler, "validate and resize image if too large".\<close>

definition guard_stage :: "world \<Rightarrow> image \<Rightarrow> pyexn + image" where
  "guard_stage wd img =
     (let h = height img; w = width img
      in if int (max h w) > max_size
         then (case resize_dims h w of (new_w, new_h) \<Rightarrow> cv2_resize wd img new_w new_h)
         else Inr img)"

section \<open>State, effects and the stages of the handler\<close>

text \<open>
  The state a run can change: the temporary files on local disk, the blobs of the storage
  bucket, the documents of the collection \<^verbatim>\<open>upscale_requests\<close> (keyed by the id the handler
  passes to \<^verbatim>\<open>document()\<close>), and the trace of calls made to the network, the model and the
  two stores. A call is recorded when it is made, whether or not it succeeds.
\<close>

record state =
  files :: "string \<rightharpoonup> nat list"
  blobs :: "(string \<times> string) \<rightharpoonup> blob"
  docs :: "json \<rightharpoonup> (string \<rightharpoonup> fieldval)"
  trace :: "event list"

datatype outcome = Returned nat "(string \<times> json) list" | Unhandled pyexn

definition log_event :: "event \<Rightarrow> state \<Rightarrow> state" where
  "log_event ev s = s\<lparr>trace := trace s @ [ev]\<rparr>"

text \<open>Sequencing inside the \<^verbatim>\<open>try\<close> block: the first exception ends it.\<close>

definition and_then ::
  "(pyexn + 'a) \<times> state \<Rightarrow> ('a \<Rightarrow> state \<Rightarrow> (pyexn + 'b) \<times> state) \<Rightarrow> (pyexn + 'b) \<times> state" where
  "and_then r f = (case r of (Inl e, s) \<Rightarrow> (Inl e, s) | (Inr a, s) \<Rightarrow> f a s)"

text \<open>
  \<^verbatim>\<open>response.raise_for_status()\<close>: requests raises HTTPError for the statuses 400 to 599 and
  for no other status.
\<close>

definition raise_for_status :: "http_response \<Rightarrow> pyexn option" where
  "raise_for_status response =
     (if 400 \<le> status_code response \<and> status_code response < 600
      then Some (LibraryError (http_error_msg response)) else None)"

text \<open>Step 1 (lines 56 to 62): fetch, check the status, stream the body into a temporary file.\<close>

definition download :: "world \<Rightarrow> json \<Rightarrow> state \<Rightarrow> (pyexn + string) \<times> state" where
  "download wd image_url s =
     (let s1 = log_event (HttpGet image_url) s
      in case requests_get wd image_url of
           Inl e \<Rightarrow> (Inl e, s1)
         | Inr response \<Rightarrow>
            (case raise_for_status response of
               Some e \<Rightarrow> (Inl e, s1)
             | None \<Rightarrow>
                (case tmp_png wd of
                   Inl e \<Rightarrow> (Inl e, s1)
                 | Inr input_path \<Rightarrow>
                    (let s2 = s1\<lparr>files := (files s1)(input_path \<mapsto> body response)\<rparr>
                     in case stream_error response of
                          Some e \<Rightarrow> (Inl e, s2)
                        | None \<Rightarrow> (Inr input_path, s2)))))"

text \<open>Step 2 (lines 65 and 68): \<^verbatim>\<open>cv2.imread\<close>, then \<^verbatim>\<open>img.shape\<close>, which \<^verbatim>\<open>None\<close> does not have.\<close>

definition decode_image :: "world \<Rightarrow> string \<Rightarrow> state \<Rightarrow> (pyexn + image) \<times> state" where
  "decode_image wd input_path s =
     (case (case files s input_path of None \<Rightarrow> Inr None | Some bs \<Rightarrow> imread wd bs) of
        Inl e \<Rightarrow> (Inl e, s)
      | Inr None \<Rightarrow> (Inl (no_attribute ''NoneType'' ''shape''), s)
      | Inr (Some img) \<Rightarrow> (Inr img, s))"

text \<open>Step 3 (line 79): inference.\<close>

definition infer :: "world \<Rightarrow> image \<Rightarrow> state \<Rightarrow> (pyexn + image) \<times> state" where
  "infer wd img s =
     (let s1 = log_event (Inference (height img) (width img)) s
      in case enhance wd img of Inl e \<Rightarrow> (Inl e, s1) | Inr output \<Rightarrow> (Inr output, s1))"

text \<open>Step 4 (lines 82 to 84): a second temporary file, holding the JPEG.\<close>

definition encode :: "world \<Rightarrow> image \<Rightarrow> state \<Rightarrow> (pyexn + string) \<times> state" where
  "encode wd output s =
     (case tmp_jpg wd of
        Inl e \<Rightarrow> (Inl e, s)
      | Inr output_path \<Rightarrow>
         (let s1 = s\<lparr>files := (files s)(output_path \<mapsto> [])\<rparr>
          in case imwrite wd output of
               Inl e \<Rightarrow> (Inl e, s1)
             | Inr bs \<Rightarrow> (Inr output_path, s1\<lparr>files := (files s1)(output_path \<mapsto> bs)\<rparr>)))"

text \<open>Step 5 (lines 88 to 96): bucket and blob name, upload, publish.\<close>

definition bucket_name :: "world \<Rightarrow> string" where
  "bucket_name wd =
     (case environ wd ''STORAGE_BUCKET'' of
        Some b \<Rightarrow> b
      | None \<Rightarrow>
         (case environ wd ''GOOGLE_CLOUD_PROJECT'' of None \<Rightarrow> ''None'' | Some p \<Rightarrow> p)
           @ ''.firebasestorage.app'')"

definition blob_name :: "world \<Rightarrow> json \<Rightarrow> json \<Rightarrow> string" where
  "blob_name wd user_id request_id =
     ''users/'' @ format_value (str_other wd) user_id @ ''/upscaled/'' @
     format_value (str_other wd) request_id @ ''.jpg''"

definition file_not_found :: "string \<Rightarrow> pyexn" where
  "file_not_found path =
     LibraryError (''[Errno 2] No such file or directory: '' @ [CHR 0x27] @ path @ [CHR 0x27])"

definition upload :: "world \<Rightarrow> json \<Rightarrow> json \<Rightarrow> string \<Rightarrow> state \<Rightarrow> (pyexn + string) \<times> state" where
  "upload wd user_id request_id output_path s =
     (let b = bucket_name wd; n = blob_name wd user_id request_id;
          s1 = log_event (Upload b n) s
      in case upload_fault wd b n of
           Some e \<Rightarrow> (Inl e, s1)
         | None \<Rightarrow>
            (case files s output_path of
               None \<Rightarrow> (Inl (file_not_found output_path), s1)
             | Some bs \<Rightarrow>
                (let s2 = log_event (MakePublic b n)
                            (s1\<lparr>blobs := (blobs s1)((b, n) \<mapsto>
                               \<lparr>content = bs, content_type = ''image/jpeg'', is_public = False\<rparr>)\<rparr>)
                 in case make_public_fault wd b n of
                      Some e \<Rightarrow> (Inl e, s2)
                    | None \<Rightarrow>
                       (Inr (public_url wd b n),
                        s2\<lparr>blobs := (blobs s2)((b, n) \<mapsto>
                             \<lparr>content = bs, content_type = ''image/jpeg'', is_public = True\<rparr>)\<rparr>))))"

text \<open>
  \<^verbatim>\<open>db.collection('upscale_requests').document(request_id).update(fs)\<close>: a merge into an
  existing document, an exception when there is none.
\<close>

definition doc_update ::
  "world \<Rightarrow> json \<Rightarrow> (string \<times> fieldval) list \<Rightarrow> state \<Rightarrow> (pyexn + unit) \<times> state" where
  "doc_update wd request_id fs s =
     (let s1 = log_event (StoreUpdate request_id fs) s
      in case store_fault wd request_id fs of
           Some e \<Rightarrow> (Inl e, s1)
         | None \<Rightarrow>
            (case docs s request_id of
               None \<Rightarrow> (Inl (not_found wd request_id), s1)
             | Some d \<Rightarrow> (Inr (), s1\<lparr>docs := (docs s1)(request_id \<mapsto> d ++ map_of fs)\<rparr>)))"

definition completed_fields :: "string \<Rightarrow> (string \<times> fieldval) list" where
  "completed_fields output_url =
     [(''status'', FStr ''completed''), (''outputUrl'', FStr output_url),
      (''updatedAt'', FServerTimestamp)]"

definition failed_fields :: "pyexn \<Rightarrow> (string \<times> fieldval) list" where
  "failed_fields e =
     [(''status'', FStr ''failed''), (''error'', FStr (str_exn e)),
      (''updatedAt'', FServerTimestamp)]"

text \<open>\<^verbatim>\<open>os.remove(path)\<close>.\<close>

definition os_remove :: "world \<Rightarrow> string \<Rightarrow> state \<Rightarrow> (pyexn + unit) \<times> state" where
  "os_remove wd path s =
     (case files s path of
        None \<Rightarrow> (Inl (file_not_found path), s)
      | Some bs \<Rightarrow>
         (case remove_fault wd path of
            Some e \<Rightarrow> (Inl e, s)
          | None \<Rightarrow> (Inr (), s\<lparr>files := (files s)(path := None)\<rparr>)))"

text \<open>
  The \<^verbatim>\<open>try\<close> block (lines 53 to 111), in two halves: everything up to the upload, and then the
  status write with the cleanup. Its value is the output URL or the exception that ended it.
\<close>

definition produce :: "world \<Rightarrow> json \<Rightarrow> json \<Rightarrow> json \<Rightarrow> state \<Rightarrow> (pyexn + string \<times> string \<times> string) \<times> state" where
  "produce wd request_id image_url user_id s =
     and_then (download wd image_url s) (\<lambda>input_path s1.
     and_then (decode_image wd input_path s1) (\<lambda>img s2.
     and_then (guard_stage wd img, s2) (\<lambda>img' s3.
     and_then (infer wd img' s3) (\<lambda>output s4.
     and_then (encode wd output s4) (\<lambda>output_path s5.
     and_then (upload wd user_id request_id output_path s5) (\<lambda>output_url s6.
       (Inr (input_path, output_path, output_url), s6)))))))"

definition record_and_cleanup ::
  "world \<Rightarrow> json \<Rightarrow> string \<times> string \<times> string \<Rightarrow> state \<Rightarrow> (pyexn + string) \<times> state" where
  "record_and_cleanup wd request_id r s =
     (case r of (input_path, output_path, output_url) \<Rightarrow>
        and_then (doc_update wd request_id (completed_fields output_url) s) (\<lambda>_ s1.
        and_then (os_remove wd input_path s1) (\<lambda>_ s2.
        and_then (os_remove wd output_path s2) (\<lambda>_ s3.
          (Inr output_url, s3)))))"

definition try_block :: "world \<Rightarrow> json \<Rightarrow> json \<Rightarrow> json \<Rightarrow> state \<Rightarrow> (pyexn + string) \<times> state" where
  "try_block wd request_id image_url user_id s =
     and_then (produce wd request_id image_url user_id s) (record_and_cleanup wd request_id)"

text \<open>
  The \<^verbatim>\<open>except\<close> handler (lines 113 to 124): the attempt to write the failure, whose own
  exception is dropped, and the 500 response.
\<close>

definition except_handler :: "world \<Rightarrow> json \<Rightarrow> pyexn \<Rightarrow> state \<Rightarrow> outcome \<times> state" where
  "except_handler wd request_id e s =
     (Returned 500 [(''error'', JStr (str_exn e))],
      snd (doc_update wd request_id (failed_fields e) s))"

text \<open>The handler. The three \<^verbatim>\<open>data.get\<close> calls are outside the \<^verbatim>\<open>try\<close> block.\<close>

definition upscale :: "world \<Rightarrow> json \<Rightarrow> state \<Rightarrow> outcome \<times> state" where
  "upscale wd data s =
     (if \<not> truthy data then (Returned 400 [(''error'', JStr ''No data provided'')], s)
      else case dict_get data ''requestId'' of
        Inl e \<Rightarrow> (Unhandled e, s)
      | Inr request_id \<Rightarrow>
       (case dict_get data ''imageUrl'' of
          Inl e \<Rightarrow> (Unhandled e, s)
        | Inr image_url \<Rightarrow>
         (case dict_get data ''userId'' of
            Inl e \<Rightarrow> (Unhandled e, s)
          | Inr user_id \<Rightarrow>
             if \<not> truthy request_id \<or> \<not> truthy image_url
             then (Returned 400 [(''error'', JStr ''Missing requestId or imageUrl'')], s)
             else (case try_block wd request_id image_url user_id s of
                     (Inr output_url, s') \<Rightarrow>
                       (Returned 200 [(''success'', JBool True), (''outputUrl'', JStr output_url)], s')
                   | (Inl e, s') \<Rightarrow> except_handler wd request_id e s'))))"

text \<open>The events a run adds to the trace.\<close>

definition run_events :: "world \<Rightarrow> json \<Rightarrow> state \<Rightarrow> event list" where
  "run_events wd data s = drop (length (trace s)) (trace (snd (upscale wd data s)))"

text \<open>The status writes and the uploads among a list of events, in order.\<close>

fun store_writes :: "event list \<Rightarrow> (json \<times> (string \<times> fieldval) list) list" where
  "store_writes [] = []"
| "store_writes (StoreUpdate k fs # evs) = (k, fs) # store_writes evs"
| "store_writes (ev # evs) = store_writes evs"

fun uploads :: "event list \<Rightarrow> (string \<times> string) list" where
  "uploads [] = []"
| "uploads (Upload b n # evs) = (b, n) # uploads evs"
| "uploads (ev # evs) = uploads evs"

text \<open>A write that sets a terminal state: completed with an output URL, or failed with an error.\<close>

fun terminal_fields :: "(string \<times> fieldval) list \<Rightarrow> bool" where
  "terminal_fields [(k1, FStr st), (k2, FStr v), (k3, FServerTimestamp)] =
     (k1 = ''status'' \<and> k3 = ''updatedAt'' \<and>
      (st = ''completed'' \<and> k2 = ''outputUrl'' \<or> st = ''failed'' \<and> k2 = ''error''))"
| "terminal_fields fs = False"

section \<open>A sample world\<close>

text \<open>
  One concrete world and state for evaluating the handler: every collaborator succeeds, the
  fetched body decodes to a 2 by 2 image, and a pending document exists for request \<open>r1\<close>.
\<close>

definition sample_image :: image where
  "sample_image = \<lparr>height = 2, width = 2, pixels = [10, 20, 30, 40]\<rparr>"

definition sample_world :: world where
  "sample_world =
     \<lparr>requests_get = (\<lambda>url. Inr
        \<lparr>status_code = 200, http_error_msg = [], body = [1, 2, 3], stream_error = None\<rparr>),
      tmp_png = Inr ''/tmp/in.png'',
      imread = (\<lambda>bs. Inr (Some sample_image)),
      inter_area = (\<lambda>img w h. []),
      enhance = (\<lambda>img. Inr \<lparr>height = 4 * height img, width = 4 * width img, pixels = []\<rparr>),
      tmp_jpg = Inr ''/tmp/out.jpg'',
      imwrite = (\<lambda>img. Inr [255, 216]),
      environ = (\<lambda>k. if k = ''STORAGE_BUCKET'' then Some ''bkt'' else None),
      upload_fault = (\<lambda>b n. None),
      make_public_fault = (\<lambda>b n. None),
      public_url = (\<lambda>b n. ''https://storage.googleapis.com/'' @ b @ ''/'' @ n),
      store_fault = (\<lambda>k fs. None),
      not_found = (\<lambda>k. LibraryError ''404 No document to update''),
      remove_fault = (\<lambda>p. None),
      str_other = (\<lambda>v. ''?'')\<rparr>"

definition sample_state :: state where
  "sample_state =
     \<lparr>files = Map.empty, blobs = Map.empty,
      docs = [JStr ''r1'' \<mapsto> [''status'' \<mapsto> FStr ''pending'']],
      trace = []\<rparr>"

definition sample_request :: json where
  "sample_request =
     JObj [(''requestId'', JStr ''r1''), (''imageUrl'', JStr ''https://x/img.png''),
           (''userId'', JStr ''u1'')]"

text \<open>
  Variations: the fetch answers 404; in addition the status store is unreachable; the fetch
  answers 300 with the same body, or 304 with an empty body that does not decode; the body does
  not decode; \<^verbatim>\<open>os.remove\<close> fails; the request names no user.
\<close>

definition response_404 :: http_response where
  "response_404 =
     \<lparr>status_code = 404,
      http_error_msg = ''404 Client Error: Not Found for url: https://x/img.png'',
      body = [], stream_error = None\<rparr>"

definition world_http_404 :: world where
  "world_http_404 = sample_world\<lparr>requests_get := (\<lambda>url. Inr response_404)\<rparr>"

definition response_300 :: http_response where
  "response_300 =
     \<lparr>status_code = 300, http_error_msg = [], body = [1, 2, 3], stream_error = None\<rparr>"

definition world_http_300 :: world where
  "world_http_300 = sample_world\<lparr>requests_get := (\<lambda>url. Inr response_300)\<rparr>"

definition response_304 :: http_response where
  "response_304 =
     \<lparr>status_code = 304, http_error_msg = [], body = [], stream_error = None\<rparr>"

definition world_http_304 :: world where
  "world_http_304 =
     sample_world\<lparr>requests_get := (\<lambda>url. Inr response_304), imread := (\<lambda>bs. Inr None)\<rparr>"

definition permission_denied :: "string \<Rightarrow> pyexn" where
  "permission_denied path =
     LibraryError (''[Errno 13] Permission denied: '' @ [CHR 0x27] @ path @ [CHR 0x27])"

definition world_cleanup_fails :: world where
  "world_cleanup_fails = sample_world\<lparr>remove_fault := (\<lambda>p. Some (permission_denied p))\<rparr>"

definition world_store_down :: world where
  "world_store_down =
     world_http_404\<lparr>store_fault := (\<lambda>k fs. Some (LibraryError ''503 The service is unavailable''))\<rparr>"

definition world_undecodable :: world where
  "world_undecodable = sample_world\<lparr>imread := (\<lambda>bs. Inr None)\<rparr>"

definition request_no_user :: json where
  "request_no_user =
     JObj [(''requestId'', JStr ''r1''), (''imageUrl'', JStr ''https://x/img.png'')]"

section \<open>Facts about the rounding\<close>

lemma ilog2_bounds:
  assumes "0 < q"
  shows "2 powi (ilog2 q) \<le> q \<and> q < 2 powi (ilog2 q + 1)"
proof -
  obtain a b where ab: "quotient_of q = (a, b)" by (cases "quotient_of q")
  have bpos: "0 < b" using ab by (rule quotient_of_denom_pos)
  have q: "q = of_int a / of_int b" using ab by (rule quotient_of_div)
  have apos: "0 < a" using assms bpos q by (simp add: zero_less_divide_iff)
  define la where "la = bitlen a"
  define lb where "lb = bitlen b"
  define k where "k = la - lb"
  have la1: "1 \<le> la" and lb1: "1 \<le> lb"
    using apos bpos bitlen_eq_zero_iff[of a] bitlen_eq_zero_iff[of b]
      bitlen_nonneg[of a] bitlen_nonneg[of b]
    by (auto simp: la_def lb_def)
  have ba: "2 ^ nat (la - 1) \<le> a" "a < 2 ^ nat la"
    using bitlen_bounds[OF apos] by (auto simp: la_def)
  have bb: "2 ^ nat (lb - 1) \<le> b" "b < 2 ^ nat lb"
    using bitlen_bounds[OF bpos] by (auto simp: lb_def)
  have pw: "(2::rat) powi j = of_int (2 ^ nat j)" if "0 \<le> j" for j
    using that by (simp add: power_int_def)
  have ra: "(2::rat) powi (la - 1) \<le> of_int a" "of_int a < (2::rat) powi la"
    using ba la1 by (simp_all add: pw del: of_int_power)
  have rb: "(2::rat) powi (lb - 1) \<le> of_int b" "of_int b < (2::rat) powi lb"
    using bb lb1 by (simp_all add: pw del: of_int_power)
  have rbpos: "(0::rat) < of_int b" using bpos by simp
  have "(2::rat) powi (la - 1) / 2 powi lb = 2 powi ((la - 1) - lb)"
    by (subst power_int_diff) simp_all
  also have "(la - 1) - lb = k - 1" by (simp add: k_def)
  finally have "(2::rat) powi (k - 1) = 2 powi (la - 1) / 2 powi lb" by simp
  also have "\<dots> < of_int a / of_int b"
    using ra rb rbpos apos by (intro frac_less2) auto
  finally have lo: "(2::rat) powi (k - 1) < q" by (simp add: q)
  have "of_int a / of_int b < (2::rat) powi la / 2 powi (lb - 1)"
    using ra rb rbpos apos by (intro frac_less) auto
  also have "\<dots> = 2 powi (la - (lb - 1))"
    by (subst power_int_diff) simp_all
  also have "la - (lb - 1) = k + 1" by (simp add: k_def)
  finally have hi: "q < (2::rat) powi (k + 1)" by (simp add: q)
  have il: "ilog2 q = (if 2 powi k \<le> q then k else k - 1)"
    by (simp add: ilog2_def ab k_def la_def lb_def Let_def)
  show ?thesis using lo hi by (auto simp: il)
qed

lemma round_half_even_err: "\<bar>of_int (round_half_even y) - y\<bar> \<le> 1 / 2"
proof -
  have "of_int \<lfloor>y\<rfloor> \<le> y" "y < of_int \<lfloor>y\<rfloor> + 1" by linarith+
  then show ?thesis
    unfolding round_half_even_def Let_def by (auto simp: abs_le_iff)
qed

lemma fl64_err:
  assumes "0 < q"
  shows "\<bar>fl64 q - q\<bar> \<le> q / 2 ^ 53"
proof -
  define e where "e = ilog2 q - 52"
  define P where "P = (2::rat) powi e"
  have Ppos: "0 < P" by (simp add: P_def)
  have fl: "fl64 q = of_int (round_half_even (q / P)) * P"
    using assms by (simp add: fl64_def e_def P_def Let_def)
  have "P = 2 powi (ilog2 q) / 2 ^ 52"
    by (simp add: P_def e_def power_int_diff)
  also have "\<dots> \<le> q / 2 ^ 52"
    using ilog2_bounds[OF assms] by (simp add: divide_right_mono)
  finally have Pq: "P \<le> q / 2 ^ 52" .
  have "fl64 q - q = (of_int (round_half_even (q / P)) - q / P) * P"
    using Ppos by (simp add: fl field_simps)
  then have "\<bar>fl64 q - q\<bar> = \<bar>of_int (round_half_even (q / P)) - q / P\<bar> * P"
    using Ppos by (simp add: abs_mult)
  also have "\<dots> \<le> (1 / 2) * P"
    using round_half_even_err[of "q / P"] Ppos by (intro mult_right_mono) auto
  also have "\<dots> \<le> (1 / 2) * (q / 2 ^ 52)"
    using Pq by simp
  also have "\<dots> = q / 2 ^ 53" by simp
  finally show ?thesis .
qed

lemma fl64_bounds:
  assumes "0 \<le> q"
  shows "q * (1 - 1 / 2 ^ 53) \<le> fl64 q \<and> fl64 q \<le> q * (1 + 1 / 2 ^ 53)"
proof (cases "q = 0")
  case True then show ?thesis by (simp add: fl64_def)
next
  case False
  then have "0 < q" using assms by simp
  from fl64_err[OF this] have "fl64 q - q \<le> q / 2 ^ 53" "q - fl64 q \<le> q / 2 ^ 53"
    by linarith+
  then show ?thesis by (simp add: algebra_simps)
qed

lemma fl64_nonneg: "0 \<le> q \<Longrightarrow> 0 \<le> fl64 q"
proof -
  assume q: "0 \<le> q"
  have "0 \<le> q * (1 - 1 / 2 ^ 53)" using q by (intro mult_nonneg_nonneg) simp_all
  then show ?thesis using fl64_bounds[OF q] by linarith
qed

text \<open>
  The product \<open>d * (4000 / m)\<close> as the handler computes it, for a side \<open>d\<close> of an image whose
  longer side is \<open>m\<close>: three roundings, each with relative error at most \<open>2^-53\<close>, keep it
  within \<open>1 / m\<close> of the exact value \<open>4000 * d / m\<close>.
\<close>

lemma py_mul_truediv_near:
  fixes d m :: nat
  assumes m: "4000 < m" and dm: "d \<le> m" and mb: "m < 2 ^ 31"
  defines "p \<equiv> py_mul (int d) (py_truediv 4000 (int m))"
  shows "0 \<le> p \<and> 4000 * of_nat d - 1 < of_nat m * p \<and> of_nat m * p < 4000 * of_nat d + 1"
proof -
  define u :: rat where "u = 1 / 2 ^ 53"
  define c :: rat where "c = 4000 / of_nat m"
  define x :: rat where "x = of_nat d * c"
  define s where "s = fl64 c"
  define d' where "d' = fl64 (of_nat d)"
  define t where "t = d' * s"
  have mpos: "(0::rat) < of_nat m" using m by simp
  have cpos: "0 \<le> c" by (simp add: c_def)
  have u1: "0 \<le> 1 - u" "0 \<le> 1 + u" by (simp_all add: u_def)
  have sb: "c * (1 - u) \<le> s" "s \<le> c * (1 + u)"
    using fl64_bounds[OF cpos] by (simp_all add: s_def u_def)
  have db: "of_nat d * (1 - u) \<le> d'" "d' \<le> of_nat d * (1 + u)"
    using fl64_bounds[of "of_nat d"] by (simp_all add: d'_def u_def)
  have s0: "0 \<le> s" unfolding s_def by (rule fl64_nonneg[OF cpos])
  have d0: "0 \<le> d'" unfolding d'_def by (rule fl64_nonneg) simp
  have t0: "0 \<le> t" unfolding t_def using s0 d0 by simp
  have tl: "(of_nat d * (1 - u)) * (c * (1 - u)) \<le> t"
    unfolding t_def using sb db u1 cpos s0 d0 by (intro mult_mono) auto
  have th: "t \<le> (of_nat d * (1 + u)) * (c * (1 + u))"
    unfolding t_def using sb db u1 cpos s0 d0 by (intro mult_mono) auto
  have pdef: "p = fl64 t"
    by (simp add: p_def py_mul_def py_truediv_def t_def d'_def s_def c_def)
  have pb: "t * (1 - u) \<le> p" "p \<le> t * (1 + u)"
    using fl64_bounds[OF t0] by (simp_all add: pdef u_def)
  have p0: "0 \<le> p" unfolding pdef by (rule fl64_nonneg[OF t0])
  have x0: "0 \<le> x" unfolding x_def using cpos by simp
  have xm: "of_nat m * x = 4000 * of_nat d" using mpos by (simp add: x_def c_def)
  have "of_nat d * c \<le> of_nat m * c" using dm cpos by (intro mult_right_mono) auto
  then have x4: "x \<le> 4000" using mpos by (simp add: x_def c_def)
  have "x * ((1 - u) * (1 - u)) * (1 - u) \<le> t * (1 - u)"
    using tl u1 by (intro mult_right_mono) (simp_all add: x_def algebra_simps)
  then have pl: "x * ((1 - u) * (1 - u) * (1 - u)) \<le> p" using pb by (simp add: algebra_simps)
  have "t * (1 + u) \<le> x * ((1 + u) * (1 + u)) * (1 + u)"
    using th u1 by (intro mult_right_mono) (simp_all add: x_def algebra_simps)
  then have ph: "p \<le> x * ((1 + u) * (1 + u) * (1 + u))" using pb by (simp add: algebra_simps)
  have k1: "(1 + u) * (1 + u) * (1 + u) \<le> 1 + 4 * u" by (simp add: u_def)
  have k2: "1 - 4 * u \<le> (1 - u) * (1 - u) * (1 - u)" by (simp add: u_def)
  have "x * ((1 + u) * (1 + u) * (1 + u)) \<le> x * (1 + 4 * u)"
    using k1 x0 by (rule mult_left_mono)
  then have ph': "p \<le> x + 4 * u * x" using ph by (simp add: algebra_simps)
  have "x * (1 - 4 * u) \<le> x * ((1 - u) * (1 - u) * (1 - u))"
    using k2 x0 by (rule mult_left_mono)
  then have pl': "x - 4 * u * x \<le> p" using pl by (simp add: algebra_simps)
  have "4 * u * x \<le> 4 * u * 4000" using x4 by (intro mult_left_mono) (simp_all add: u_def)
  also have "\<dots> < 1 / 2 ^ 31" by (simp add: u_def)
  finally have e: "4 * u * x < 1 / 2 ^ 31" .
  have "of_nat m < (2::rat) ^ 31" using mb
    by (metis of_nat_less_iff of_nat_numeral of_nat_power)
  then have "of_nat m * (4 * u * x) < of_nat m * (1 / 2 ^ 31)" "of_nat m * (1 / 2 ^ 31) < (1::rat)"
    using e mpos by (simp_all add: field_simps)
  then have me: "of_nat m * (4 * u * x) < 1" by linarith
  have "of_nat m * p \<le> of_nat m * (x + 4 * u * x)"
    using ph' mpos by (intro mult_left_mono) simp_all
  then have H: "of_nat m * p < 4000 * of_nat d + 1" using me xm by (simp add: algebra_simps)
  have "of_nat m * (x - 4 * u * x) \<le> of_nat m * p"
    using pl' mpos by (intro mult_left_mono) simp_all
  then have L: "4000 * of_nat d - 1 < of_nat m * p" using me xm by (simp add: algebra_simps)
  show ?thesis using p0 L H by simp
qed

text \<open>After \<^verbatim>\<open>int()\<close>: the new side \<open>n\<close> satisfies \<open>4000 * d / m - 1 \<le> n \<le> 4000 * d / m\<close>.\<close>

lemma scaled_dim_bounds:
  fixes d m :: nat
  assumes m: "4000 < m" and dm: "d \<le> m" and mb: "m < 2 ^ 31"
  defines "n \<equiv> py_int (py_mul (int d) (py_truediv 4000 (int m)))"
  shows "0 \<le> n \<and> int m * n \<le> 4000 * int d \<and> 4000 * int d \<le> int m * n + int m"
proof -
  define p where "p = py_mul (int d) (py_truediv 4000 (int m))"
  have P: "0 \<le> p" "4000 * of_nat d - 1 < of_nat m * p" "of_nat m * p < 4000 * of_nat d + 1"
    using py_mul_truediv_near[OF m dm mb] by (simp_all add: p_def)
  have n: "n = \<lfloor>p\<rfloor>" using P(1) by (simp add: n_def p_def py_int_def)
  have mpos: "(0::rat) < of_nat m" using m by simp
  have fl: "of_int n \<le> p" "p < of_int n + 1" unfolding n by linarith+
  have n0: "0 \<le> n" using P(1) by (simp add: n)
  have "of_nat m * of_int n \<le> of_nat m * p"
    using fl(1) mpos by (intro mult_left_mono) simp_all
  then have "(of_int (int m * n) :: rat) < of_int (4000 * int d + 1)" using P(3) by simp
  then have A: "int m * n < 4000 * int d + 1" by (simp only: of_int_less_iff)
  have "of_nat m * p < of_nat m * (of_int n + 1)"
    using fl(2) mpos by (intro mult_strict_left_mono) simp_all
  then have "(of_int (4000 * int d - 1) :: rat) < of_int (int m * n + int m)"
    using P(2) by (simp add: algebra_simps)
  then have B: "4000 * int d - 1 < int m * n + int m" by (simp only: of_int_less_iff)
  show ?thesis using n0 A B by simp
qed

section \<open>Evaluation\<close>

lemmas world_defs = sample_world_def sample_state_def sample_request_def sample_image_def
  world_http_404_def world_store_down_def world_undecodable_def request_no_user_def
  response_404_def response_300_def response_304_def world_http_300_def world_http_304_def
  world_cleanup_fails_def permission_denied_def

lemmas stage_defs = upscale_def try_block_def produce_def record_and_cleanup_def and_then_def
  download_def raise_for_status_def decode_image_def guard_stage_def infer_def encode_def
  upload_def doc_update_def
  os_remove_def except_handler_def log_event_def bucket_name_def blob_name_def format_value_def
  completed_fields_def failed_fields_def max_size_def Let_def run_events_def

section \<open>The resize step\<close>

lemma resize_dims_sides:
  assumes "4000 < max h w" "h < 2 ^ 31" "w < 2 ^ 31"
  shows "0 \<le> fst (resize_dims h w)
       \<and> int (max h w) * fst (resize_dims h w) \<le> 4000 * int w
       \<and> 4000 * int w \<le> int (max h w) * fst (resize_dims h w) + int (max h w)
       \<and> 0 \<le> snd (resize_dims h w)
       \<and> int (max h w) * snd (resize_dims h w) \<le> 4000 * int h
       \<and> 4000 * int h \<le> int (max h w) * snd (resize_dims h w) + int (max h w)"
proof -
  have mb: "max h w < 2 ^ 31" using assms by simp
  show ?thesis
    using scaled_dim_bounds[OF assms(1) _ mb, of w] scaled_dim_bounds[OF assms(1) _ mb, of h]
    by (simp add: resize_dims_def max_size_def Let_def)
qed

lemma floor_or_one_below:
  fixes n D m :: int
  assumes "0 < m" "m * n \<le> D" "D \<le> m * n + m"
  shows "n = D div m \<or> (m dvd D \<and> n = D div m - 1)"
proof (cases "D = m * n + m")
  case True
  then have "D = m * (n + 1)" by (simp add: algebra_simps)
  then show ?thesis using assms(1) by simp
next
  case False
  define r where "r = D - m * n"
  have r: "0 \<le> r" "r < m" using assms False by (simp_all add: r_def)
  have "D = r + m * n" by (simp add: r_def)
  then have "D div m = n + r div m" using assms(1) by (simp only: div_mult_self2) 
  then show ?thesis using r by (simp add: div_pos_pos_trivial)
qed

text \<open>
  Claim C1, as the code has it. The claim says that every decoded image whose longer side
  exceeds 4000 comes out of the guard with both sides at most 4000 and its aspect ratio
  kept up to one pixel of rounding. The handler truncates each scaled side with \<^verbatim>\<open>int()\<close>, so
  a side can become 0 and \<^verbatim>\<open>cv2.resize\<close> then raises: a 1 by 8001 image yields no image at all.
\<close>

theorem guard_no_image_counterexample:
  "guard_stage sample_world \<lparr>height = 1, width = 8001, pixels = []\<rparr> =
     Inl (LibraryError ''(-215:Assertion failed) inv_scale_x > 0 in function resize'')"
  by code_simp

text \<open>
  Claim C1, amended. For every decoded image (sides below \<open>2^31\<close>, as OpenCV stores them) whose
  longer side \<open>m\<close> exceeds 4000 and is less than 4000 times the shorter side, the guard
  produces an image with both sides between 1 and 4000, and each side is within one pixel of the
  exactly proportional size: \<open>4000 * h / m - 1 \<le> h' \<le> 4000 * h / m\<close>, and the same for the
  width. The exactly proportional sizes have the ratio \<open>h / w\<close>.
\<close>

theorem guard_downscale:
  assumes big: "4000 < max (height img) (width img)"
    and hb: "height img < 2 ^ 31" and wb: "width img < 2 ^ 31"
    and ar: "max (height img) (width img) < 4000 * min (height img) (width img)"
  shows "\<exists>img'. guard_stage wd img = Inr img'
      \<and> max (height img') (width img') \<le> 4000
      \<and> 1 \<le> height img' \<and> 1 \<le> width img'
      \<and> max (height img) (width img) * height img' \<le> 4000 * height img
      \<and> 4000 * height img \<le> max (height img) (width img) * height img' + max (height img) (width img)
      \<and> max (height img) (width img) * width img' \<le> 4000 * width img
      \<and> 4000 * width img \<le> max (height img) (width img) * width img' + max (height img) (width img)"
proof -
  define h w m where "h = height img" and "w = width img" and "m = max h w"
  define nw nh where "nw = fst (resize_dims h w)" and "nh = snd (resize_dims h w)"
  have S: "0 \<le> nw" "int m * nw \<le> 4000 * int w" "4000 * int w \<le> int m * nw + int m"
          "0 \<le> nh" "int m * nh \<le> 4000 * int h" "4000 * int h \<le> int m * nh + int m"
    using resize_dims_sides[of h w] big hb wb by (simp_all add: h_def w_def m_def nw_def nh_def)
  have mpos: "0 < int m" using big by (simp add: m_def h_def w_def)
  have ar': "int m < 4000 * int h" "int m < 4000 * int w"
    using ar by (simp_all add: m_def h_def w_def min_def split: if_splits)
  have "int m * 0 < int m * nw" using S(3) ar'(2) by simp
  then have "0 < nw" using mpos by (simp only: mult_less_cancel_left_pos)
  then have nw1: "1 \<le> nw" by simp
  have "int m * 0 < int m * nh" using S(6) ar'(1) by simp
  then have "0 < nh" using mpos by (simp only: mult_less_cancel_left_pos)
  then have nh1: "1 \<le> nh" by simp
  have "int m * nw \<le> int m * 4000" using S(2) by (simp add: m_def)
  then have nw4: "nw \<le> 4000" using mpos by (simp only: mult_le_cancel_left_pos)
  have "int m * nh \<le> int m * 4000" using S(5) by (simp add: m_def)
  then have nh4: "nh \<le> 4000" using mpos by (simp only: mult_le_cancel_left_pos)
  define img' where "img' = \<lparr>height = nat nh, width = nat nw,
                               pixels = inter_area wd img (nat nw) (nat nh)\<rparr>"
  have rd: "resize_dims h w = (nw, nh)" by (simp add: nw_def nh_def)
  have g: "guard_stage wd img = Inr img'"
    using big nw1 nh1 rd
    by (simp add: guard_stage_def cv2_resize_def max_size_def Let_def img'_def h_def[symmetric] w_def[symmetric])
  have hh: "int (height img') = nh" "int (width img') = nw"
    using nw1 nh1 by (simp_all add: img'_def)
  have T: "int (m * height img') \<le> int (4000 * h)" "int (4000 * h) \<le> int (m * height img' + m)"
          "int (m * width img') \<le> int (4000 * w)" "int (4000 * w) \<le> int (m * width img' + m)"
    using S hh by simp_all
  have "max (height img') (width img') \<le> 4000" "1 \<le> height img'" "1 \<le> width img'"
    using nw1 nh1 nw4 nh4 by (simp_all add: img'_def nat_le_iff)
  moreover have "m * height img' \<le> 4000 * h" "4000 * h \<le> m * height img' + m"
          "m * width img' \<le> 4000 * w" "4000 * w \<le> m * width img' + m"
    using T by (simp_all only: of_nat_le_iff)
  ultimately show ?thesis using g unfolding m_def h_def w_def by blast
qed

theorem guard_downscale_witness:
  "\<exists>img'. guard_stage sample_world \<lparr>height = 3000, width = 6000, pixels = []\<rparr> = Inr img'
      \<and> height img' = 2000 \<and> width img' = 4000
      \<and> max (height img') (width img') \<le> 4000"
proof -
  define img where "img = \<lparr>height = 3000, width = 6000, pixels = []\<rparr>"
  have ev: "guard_stage sample_world img = Inr \<lparr>height = 2000, width = 4000, pixels = []\<rparr>"
    unfolding img_def by code_simp
  have "4000 < max (height img) (width img)" "height img < 2 ^ 31" "width img < 2 ^ 31"
    "max (height img) (width img) < 4000 * min (height img) (width img)"
    by (simp_all add: img_def)
  from guard_downscale[OF this, of sample_world] obtain img' where
    "guard_stage sample_world img = Inr img'" "max (height img') (width img') \<le> 4000"
    by blast
  then show ?thesis using ev unfolding img_def by auto
qed

text \<open>
  Claim C2. For every decoded image whose longer side is at most 4000, the guard returns the
  image itself: same height, same width, same samples.
\<close>

theorem guard_identity_in_bounds:
  "max (height img) (width img) \<le> 4000 \<Longrightarrow> guard_stage wd img = Inr img"
  by (auto simp: guard_stage_def max_size_def Let_def)

theorem guard_identity_in_bounds_witness:
  "max (height sample_image) (width sample_image) \<le> 4000 \<and>
   guard_stage sample_world sample_image = Inr sample_image"
  using guard_identity_in_bounds[of sample_image sample_world] by (simp add: sample_image_def)

text \<open>
  Claim C3, as the code has it. The claim says that each new side is the old side times
  \<open>4000 / max(h, w)\<close> rounded to the nearest integer, and at least 1. For a 4001 wide, 3 high
  image the new height is 2, while \<open>3 * 4000 / 4001\<close> rounds to 3; for an 8001 wide, 1 high
  image the new height is 0.
\<close>

theorem resize_dims_counterexample:
  "snd (resize_dims 3 4001) = 2 \<and> round (3 * (4000 / 4001) :: rat) = 3
   \<and> snd (resize_dims 1 8001) = 0"
  by code_simp

text \<open>
  Claim C3, amended. When the guard downscales an image with sides below \<open>2^31\<close>, each new side
  is the old side times \<open>4000 / max(h, w)\<close> truncated toward zero, computed in double
  precision: it is the integer part of the exact product \<open>4000 * d / max(h, w)\<close>, or one less
  than the exact product when that is an integer. A new side can be 0.
\<close>

theorem resize_dims_truncates:
  assumes "4000 < max h w" "h < 2 ^ 31" "w < 2 ^ 31"
  shows "(fst (resize_dims h w) = (4000 * int w) div int (max h w)
          \<or> int (max h w) dvd 4000 * int w
            \<and> fst (resize_dims h w) = (4000 * int w) div int (max h w) - 1)
       \<and> (snd (resize_dims h w) = (4000 * int h) div int (max h w)
          \<or> int (max h w) dvd 4000 * int h
            \<and> snd (resize_dims h w) = (4000 * int h) div int (max h w) - 1)"
proof -
  have mpos: "0 < int (max h w)" using assms(1) by simp
  show ?thesis
    using resize_dims_sides[OF assms] floor_or_one_below[OF mpos, of "fst (resize_dims h w)" "4000 * int w"]
      floor_or_one_below[OF mpos, of "snd (resize_dims h w)" "4000 * int h"]
    by blast
qed

theorem resize_dims_truncates_witness:
  "fst (resize_dims 3000 4210) = 4000 * 4210 div 4210 - 1 \<and> fst (resize_dims 3000 4210) = 3999
   \<and> snd (resize_dims 3000 4210) = 4000 * 3000 div 4210 \<and> snd (resize_dims 3000 4210) = 2850"
proof -
  have ev: "resize_dims 3000 4210 = (3999, 2850)" by code_simp
  have H: "4000 < max (3000::nat) 4210" "(3000::nat) < 2 ^ 31" "(4210::nat) < 2 ^ 31" by simp_all
  from resize_dims_truncates[OF H] show ?thesis using ev by simp
qed

section \<open>The handler, stage by stage\<close>

lemma dict_get_obj:
  assumes "dict_get data k = Inr v"
  obtains kvs where "data = JObj kvs"
  using assms by (cases data) simp_all

lemma upscale_valid:
  assumes "dict_get data ''requestId'' = Inr rid" "dict_get data ''imageUrl'' = Inr url"
    "dict_get data ''userId'' = Inr uid" "truthy rid" "truthy url"
  shows "upscale wd data s =
     (case try_block wd rid url uid s of
        (Inr output_url, s') \<Rightarrow>
          (Returned 200 [(''success'', JBool True), (''outputUrl'', JStr output_url)], s')
      | (Inl e, s') \<Rightarrow> except_handler wd rid e s')"
proof -
  from assms(1) obtain kvs where d: "data = JObj kvs" by (rule dict_get_obj)
  have "kvs \<noteq> []" using assms(1,4) d by auto
  then show ?thesis using assms d by (simp add: upscale_def)
qed

lemma download_frame:
  "download wd url s = (r, s') \<Longrightarrow>
     docs s' = docs s \<and> blobs s' = blobs s \<and> trace s' = trace s @ [HttpGet url]"
  by (auto simp: download_def log_event_def Let_def split: sum.splits option.splits)

lemma decode_frame: "decode_image wd p s = (r, s') \<Longrightarrow> s' = s"
  by (auto simp: decode_image_def split: sum.splits option.splits)

lemma infer_frame:
  "infer wd img s = (r, s') \<Longrightarrow>
     docs s' = docs s \<and> blobs s' = blobs s \<and> files s' = files s
     \<and> trace s' = trace s @ [Inference (height img) (width img)]"
  by (auto simp: infer_def log_event_def Let_def split: sum.splits)

lemma encode_frame:
  "encode wd out s = (r, s') \<Longrightarrow> docs s' = docs s \<and> blobs s' = blobs s \<and> trace s' = trace s"
  by (auto simp: encode_def Let_def split: sum.splits)

lemma upload_frame:
  "upload wd uid rid p s = (r, s') \<Longrightarrow>
     docs s' = docs s \<and> files s' = files s \<and>
     (\<exists>evs. trace s' = trace s @ Upload (bucket_name wd) (blob_name wd uid rid) # evs
            \<and> store_writes evs = [] \<and> uploads evs = [])"
  by (auto simp: upload_def log_event_def Let_def split: sum.splits option.splits)

lemma upload_success:
  "upload wd uid rid p s = (Inr ou, s') \<Longrightarrow>
     ou = public_url wd (bucket_name wd) (blob_name wd uid rid)
     \<and> docs s' = docs s
     \<and> trace s' = trace s @ [Upload (bucket_name wd) (blob_name wd uid rid),
                             MakePublic (bucket_name wd) (blob_name wd uid rid)]
     \<and> (\<exists>bs. files s p = Some bs \<and>
           blobs s' (bucket_name wd, blob_name wd uid rid) =
             Some \<lparr>content = bs, content_type = ''image/jpeg'', is_public = True\<rparr>)"
  by (auto simp: upload_def log_event_def Let_def split: sum.splits option.splits)

lemma store_writes_append: "store_writes (xs @ ys) = store_writes xs @ store_writes ys"
  by (induction xs rule: store_writes.induct) simp_all

lemma uploads_append: "uploads (xs @ ys) = uploads xs @ uploads ys"
  by (induction xs rule: uploads.induct) simp_all

lemma produce_frame:
  "produce wd rid url uid s = (r, s') \<Longrightarrow>
     docs s' = docs s \<and> (\<exists>evs. trace s' = trace s @ evs \<and> store_writes evs = [])"
  by (auto simp: produce_def and_then_def split: sum.splits prod.splits
      dest!: download_frame decode_frame infer_frame encode_frame upload_frame)

lemma produce_success:
  "produce wd rid url uid s = (Inr (ip, op, ou), s') \<Longrightarrow>
     ou = public_url wd (bucket_name wd) (blob_name wd uid rid)
     \<and> docs s' = docs s
     \<and> (\<exists>h w. trace s' = trace s @ [HttpGet url, Inference h w,
                   Upload (bucket_name wd) (blob_name wd uid rid),
                   MakePublic (bucket_name wd) (blob_name wd uid rid)])
     \<and> (\<exists>bs. blobs s' (bucket_name wd, blob_name wd uid rid) =
             Some \<lparr>content = bs, content_type = ''image/jpeg'', is_public = True\<rparr>)"
  by (auto simp: produce_def and_then_def split: sum.splits prod.splits
      dest!: download_frame decode_frame infer_frame encode_frame upload_success)


lemma doc_update_frame:
  "doc_update wd rid fs s = (r, s') \<Longrightarrow>
     trace s' = trace s @ [StoreUpdate rid fs] \<and> files s' = files s \<and> blobs s' = blobs s
     \<and> (\<forall>k. k \<noteq> rid \<longrightarrow> docs s' k = docs s k)
     \<and> (docs s' rid = docs s rid \<or> (\<exists>d. docs s rid = Some d \<and> docs s' rid = Some (d ++ map_of fs)))"
  by (auto simp: doc_update_def log_event_def Let_def split: option.splits)

lemma doc_update_success:
  "doc_update wd rid fs s = (Inr u, s') \<Longrightarrow>
     trace s' = trace s @ [StoreUpdate rid fs]
     \<and> (\<forall>k. k \<noteq> rid \<longrightarrow> docs s' k = docs s k)
     \<and> (\<exists>d. docs s rid = Some d \<and> docs s' rid = Some (d ++ map_of fs))"
  by (auto simp: doc_update_def log_event_def Let_def split: option.splits)


lemma doc_update_docs:
  "docs (snd (doc_update wd rid fs s)) rid =
     (case docs s rid of
        None \<Rightarrow> None
      | Some d \<Rightarrow> if store_fault wd rid fs = None then Some (d ++ map_of fs) else Some d)"
  by (auto simp: doc_update_def log_event_def Let_def split: option.splits)

lemma os_remove_frame:
  "os_remove wd p s = (r, s') \<Longrightarrow> docs s' = docs s \<and> blobs s' = blobs s \<and> trace s' = trace s"
  by (auto simp: os_remove_def split: option.splits)

lemma record_success:
  "record_and_cleanup wd rid (ip, op, ou) s = (Inr x, s') \<Longrightarrow>
     x = ou \<and> trace s' = trace s @ [StoreUpdate rid (completed_fields ou)]
     \<and> (\<forall>k. k \<noteq> rid \<longrightarrow> docs s' k = docs s k)
     \<and> (\<exists>d. docs s rid = Some d \<and> docs s' rid = Some (d ++ map_of (completed_fields ou)))"
  by (auto simp: record_and_cleanup_def and_then_def split: sum.splits prod.splits
      dest!: doc_update_success os_remove_frame)

lemma record_frame:
  "record_and_cleanup wd rid (ip, op, ou) s = (r, s') \<Longrightarrow>
     trace s' = trace s @ [StoreUpdate rid (completed_fields ou)]
     \<and> (\<forall>k. k \<noteq> rid \<longrightarrow> docs s' k = docs s k)
     \<and> (docs s' rid = None \<longleftrightarrow> docs s rid = None)"
  by (auto simp: record_and_cleanup_def and_then_def split: sum.splits prod.splits
      dest!: doc_update_frame os_remove_frame)


lemma try_block_split:
  "try_block wd rid url uid s = (r, s') \<Longrightarrow>
     (\<exists>e. r = Inl e \<and> produce wd rid url uid s = (Inl e, s'))
   \<or> (\<exists>ip op ou s1. produce wd rid url uid s = (Inr (ip, op, ou), s1)
          \<and> record_and_cleanup wd rid (ip, op, ou) s1 = (r, s'))"
  by (auto simp: try_block_def and_then_def split: sum.splits prod.splits)

lemma try_block_produce_fails:
  "produce wd rid url uid s = (Inl e, s1) \<Longrightarrow> try_block wd rid url uid s = (Inl e, s1)"
  by (simp add: try_block_def and_then_def)

lemma try_block_success:
  assumes "try_block wd rid url uid s = (Inr ou, s')"
  shows "ou = public_url wd (bucket_name wd) (blob_name wd uid rid)
     \<and> (\<exists>h w. trace s' = trace s @ [HttpGet url, Inference h w,
                   Upload (bucket_name wd) (blob_name wd uid rid),
                   MakePublic (bucket_name wd) (blob_name wd uid rid),
                   StoreUpdate rid (completed_fields ou)])
     \<and> (\<forall>k. k \<noteq> rid \<longrightarrow> docs s' k = docs s k)
     \<and> (\<exists>d. docs s rid = Some d \<and> docs s' rid = Some (d ++ map_of (completed_fields ou)))
     \<and> (\<exists>bs. blobs s' (bucket_name wd, blob_name wd uid rid) =
             Some \<lparr>content = bs, content_type = ''image/jpeg'', is_public = True\<rparr>)"
proof -
  from try_block_split[OF assms] obtain ip op ou' s1 where
    p: "produce wd rid url uid s = (Inr (ip, op, ou'), s1)"
    and r: "record_and_cleanup wd rid (ip, op, ou') s1 = (Inr ou, s')" by auto
  have b: "blobs s' = blobs s1" using r
    by (auto simp: record_and_cleanup_def and_then_def split: sum.splits prod.splits
        dest!: doc_update_frame os_remove_frame)
  from produce_success[OF p] record_success[OF r] b show ?thesis by auto
qed

lemma try_block_frame:
  assumes "try_block wd rid url uid s = (r, s')"
  shows "(docs s' k = None \<longleftrightarrow> docs s k = None) \<and> (k \<noteq> rid \<longrightarrow> docs s' k = docs s k)
     \<and> (\<exists>evs. trace s' = trace s @ evs
          \<and> (store_writes evs = [] \<or> (\<exists>ou. store_writes evs = [(rid, completed_fields ou)])))"
  using try_block_split[OF assms]
proof (elim disjE exE conjE)
  fix e assume "r = Inl e" and p: "produce wd rid url uid s = (Inl e, s')"
  from produce_frame[OF p] show ?thesis by auto
next
  fix ip op ou s1
  assume p: "produce wd rid url uid s = (Inr (ip, op, ou), s1)"
    and r: "record_and_cleanup wd rid (ip, op, ou) s1 = (r, s')"
  from produce_frame[OF p] obtain evs where
    e: "docs s1 = docs s" "trace s1 = trace s @ evs" "store_writes evs = []" by auto
  from record_frame[OF r] have
    f: "trace s' = trace s1 @ [StoreUpdate rid (completed_fields ou)]"
       "\<forall>k. k \<noteq> rid \<longrightarrow> docs s' k = docs s1 k" "docs s' rid = None \<longleftrightarrow> docs s1 rid = None"
    by auto
  have t: "trace s' = trace s @ (evs @ [StoreUpdate rid (completed_fields ou)])"
    using e f by simp
  have w: "store_writes (evs @ [StoreUpdate rid (completed_fields ou)]) = [(rid, completed_fields ou)]"
    using e by (simp add: store_writes_append)
  have A: "\<exists>evs. trace s' = trace s @ evs
          \<and> (store_writes evs = [] \<or> (\<exists>ou. store_writes evs = [(rid, completed_fields ou)]))"
    using t w by blast
  have B: "docs s' k = None \<longleftrightarrow> docs s k = None" "k \<noteq> rid \<longrightarrow> docs s' k = docs s k"
    using e(1) f(2,3) by (cases "k = rid"; simp)+
  show ?thesis using A B by simp
qed

lemma except_handler_frame:
  assumes "except_handler wd rid e s = (r, s')"
  shows "r = Returned 500 [(''error'', JStr (str_exn e))]
     \<and> trace s' = trace s @ [StoreUpdate rid (failed_fields e)]
     \<and> files s' = files s \<and> blobs s' = blobs s
     \<and> (\<forall>k. k \<noteq> rid \<longrightarrow> docs s' k = docs s k)
     \<and> docs s' rid =
         (case docs s rid of
            None \<Rightarrow> None
          | Some d \<Rightarrow> if store_fault wd rid (failed_fields e) = None
                      then Some (d ++ map_of (failed_fields e)) else Some d)"
proof -
  obtain u s2 where d: "doc_update wd rid (failed_fields e) s = (u, s2)"
    by (cases "doc_update wd rid (failed_fields e) s")
  from assms d have "r = Returned 500 [(''error'', JStr (str_exn e))]" "s' = s2"
    by (simp_all add: except_handler_def)
  moreover have "docs s2 rid =
         (case docs s rid of
            None \<Rightarrow> None
          | Some d \<Rightarrow> if store_fault wd rid (failed_fields e) = None
                      then Some (d ++ map_of (failed_fields e)) else Some d)"
    using doc_update_docs[of wd rid "failed_fields e" s] d by simp
  moreover have "trace s2 = trace s @ [StoreUpdate rid (failed_fields e)]"
    "files s2 = files s" "blobs s2 = blobs s" "\<forall>k. k \<noteq> rid \<longrightarrow> docs s2 k = docs s k"
    using doc_update_frame[OF d] by simp_all
  ultimately show ?thesis by simp
qed

lemma upscale_cases:
  obtains (reject) payload where "upscale wd data s = (Returned 400 payload, s)"
      "\<And>rid url. dict_get data ''requestId'' = Inr rid \<Longrightarrow>
         dict_get data ''imageUrl'' = Inr url \<Longrightarrow> \<not> (truthy rid \<and> truthy url)"
  | (unhandled) e where "upscale wd data s = (Unhandled e, s)" "\<forall>k v. dict_get data k \<noteq> Inr v"
  | (run) rid url uid where "dict_get data ''requestId'' = Inr rid"
      "dict_get data ''imageUrl'' = Inr url" "dict_get data ''userId'' = Inr uid"
      "truthy rid" "truthy url"
proof (cases "truthy data")
  case False
  have "\<not> (truthy rid \<and> truthy url)"
    if "dict_get data ''requestId'' = Inr rid" "dict_get data ''imageUrl'' = Inr url" for rid url
    using that False by (cases data) auto
  then show ?thesis using reject[of "[(''error'', JStr ''No data provided'')]"] False
    by (simp add: upscale_def)
next
  case True
  show ?thesis
  proof (cases data)
    case (JObj kvs)
    show ?thesis
    proof (cases "truthy (case map_of kvs ''requestId'' of None \<Rightarrow> JNull | Some v \<Rightarrow> v)
                 \<and> truthy (case map_of kvs ''imageUrl'' of None \<Rightarrow> JNull | Some v \<Rightarrow> v)")
      case True
      then show ?thesis using JObj run by simp
    next
      case False
      then show ?thesis
        using JObj True reject[of "[(''error'', JStr ''Missing requestId or imageUrl'')]"]
        by (auto simp: upscale_def)
    qed
  qed (use True unhandled in \<open>auto simp: upscale_def\<close>)
qed


lemma run_events_eq:
  "trace (snd (upscale wd data s)) = trace s @ evs \<Longrightarrow> run_events wd data s = evs"
  by (simp add: run_events_def)

lemma terminal_fields_simps [simp]:
  "terminal_fields (completed_fields ou)" "terminal_fields (failed_fields e)"
  by (simp_all add: completed_fields_def failed_fields_def)

text \<open>What a run that passes validation does, by the result of the try block.\<close>

lemma upscale_run_success:
  assumes v: "dict_get data ''requestId'' = Inr rid" "dict_get data ''imageUrl'' = Inr url"
    "dict_get data ''userId'' = Inr uid" "truthy rid" "truthy url"
    and t: "try_block wd rid url uid s = (Inr ou, s')"
  shows "upscale wd data s =
           (Returned 200 [(''success'', JBool True), (''outputUrl'', JStr ou)], s')"
  using upscale_valid[OF v, of wd s] t by simp

lemma upscale_run_failure:
  assumes v: "dict_get data ''requestId'' = Inr rid" "dict_get data ''imageUrl'' = Inr url"
    "dict_get data ''userId'' = Inr uid" "truthy rid" "truthy url"
    and t: "try_block wd rid url uid s = (Inl e, s1)"
  shows "upscale wd data s = except_handler wd rid e s1"
  using upscale_valid[OF v, of wd s] t by simp


section \<open>Validation\<close>

text \<open>
  Claim C4, as the code has it. The claim says that every request in which requestId or
  imageUrl is missing or empty is answered with the client error "Missing requestId or imageUrl".
  The handler tests \<^verbatim>\<open>if not data\<close> first: the empty object, in which both are missing, is
  answered with "No data provided".
\<close>

theorem missing_fields_counterexample:
  "dict_get (JObj []) ''requestId'' = Inr JNull
   \<and> fst (upscale sample_world (JObj []) sample_state) =
       Returned 400 [(''error'', JStr ''No data provided'')]"
  by (simp add: upscale_def)

text \<open>
  Claim C4, amended. For every request whose body is a non-empty JSON object in which requestId
  or imageUrl is missing or empty (falsy), the handler returns status 400 with the message
  "Missing requestId or imageUrl" and leaves the state as it was: no file, no blob, no document
  is touched and no call is made to the network, the model or a store.
\<close>

theorem missing_fields_rejected:
  assumes "truthy data" "dict_get data ''requestId'' = Inr rid"
    "dict_get data ''imageUrl'' = Inr url" "\<not> truthy rid \<or> \<not> truthy url"
  shows "upscale wd data s =
           (Returned 400 [(''error'', JStr ''Missing requestId or imageUrl'')], s)
         \<and> run_events wd data s = []"
proof -
  from assms(2) obtain kvs where d: "data = JObj kvs" by (rule dict_get_obj)
  have "upscale wd data s =
           (Returned 400 [(''error'', JStr ''Missing requestId or imageUrl'')], s)"
    using assms d by (auto simp: upscale_def)
  then show ?thesis by (simp add: run_events_def)
qed

theorem missing_fields_rejected_witness:
  "upscale sample_world (JObj [(''userId'', JStr ''u1'')]) sample_state =
     (Returned 400 [(''error'', JStr ''Missing requestId or imageUrl'')], sample_state)
   \<and> upscale sample_world
        (JObj [(''requestId'', JStr ''r1''), (''imageUrl'', JStr [])]) sample_state =
     (Returned 400 [(''error'', JStr ''Missing requestId or imageUrl'')], sample_state)"
  using missing_fields_rejected[of "JObj [(''userId'', JStr ''u1'')]" JNull JNull
          sample_world sample_state]
    missing_fields_rejected[of "JObj [(''requestId'', JStr ''r1''), (''imageUrl'', JStr [])]"
          "JStr ''r1''" "JStr []" sample_world sample_state]
  by simp

text \<open>
  Claim C10, as the code has it. The claim says that every request whose body is absent or is
  not a non-empty JSON object is answered with status 400 and "No data provided". The guard
  \<^verbatim>\<open>if not data\<close> sees only a body that \<^verbatim>\<open>request.json\<close> has decoded. A non-empty body that
  is not an object, such as the array \<^verbatim>\<open>[1]\<close>, passes the guard; then \<^verbatim>\<open>data.get\<close> raises
  AttributeError outside the \<^verbatim>\<open>try\<close> block, and the handler returns nothing.
\<close>

theorem no_data_counterexample:
  "upscale sample_world (JArr [JInt 1]) sample_state =
     (Unhandled (no_attribute ''list'' ''get''), sample_state)"
  by (simp add: upscale_def)

text \<open>
  Claim C10, amended. For every request whose body decodes to a falsy JSON value (null,
  false, zero, the empty string, the empty array or the empty object), the handler returns
  status 400 with the message "No data provided", leaves the state as it was and makes no call
  to the network, the model or a store. A request without a body, or with a body that is not
  JSON, is rejected by \<^verbatim>\<open>request.json\<close> on line 42 and never reaches the guard.
\<close>

theorem no_data_rejected:
  "\<not> truthy data \<Longrightarrow>
     upscale wd data s = (Returned 400 [(''error'', JStr ''No data provided'')], s)
     \<and> run_events wd data s = []"
  by (simp add: upscale_def run_events_def)

theorem no_data_rejected_witness:
  "\<not> truthy JNull \<and> \<not> truthy (JObj [])
   \<and> upscale sample_world JNull sample_state =
       (Returned 400 [(''error'', JStr ''No data provided'')], sample_state)
   \<and> upscale sample_world (JObj []) sample_state =
       (Returned 400 [(''error'', JStr ''No data provided'')], sample_state)"
  using no_data_rejected[of JNull sample_world sample_state]
    no_data_rejected[of "JObj []" sample_world sample_state]
  by simp

section \<open>Failure of a stage\<close>






section \<open>The status record\<close>

text \<open>
  The status records over one run. A run never deletes or creates a record and changes no
  record other than the one of its requestId; every status write it issues is for that
  requestId and sets a terminal state, completed with outputUrl or failed with error. A run
  that answers with success has issued exactly one status write, completed with the returned
  outputUrl, and the record holds it. A run that answers with status 400 changes nothing. A
  run in which a stage up to and including the upload fails issues exactly one status write,
  failed with that stage's error; the record takes it when the store accepts the write and is
  unchanged when the write fails.
\<close>

lemma status_record_lifecycle:
  "(docs (snd (upscale wd data s)) k = None \<longleftrightarrow> docs s k = None)
   \<and> (dict_get data ''requestId'' \<noteq> Inr k \<longrightarrow> docs (snd (upscale wd data s)) k = docs s k)
   \<and> trace (snd (upscale wd data s)) = trace s @ run_events wd data s
   \<and> ((k, fs) \<in> set (store_writes (run_events wd data s)) \<longrightarrow>
        dict_get data ''requestId'' = Inr k \<and> terminal_fields fs)
   \<and> (fst (upscale wd data s) = Returned 200 payload \<longrightarrow>
        (\<exists>rid ou d. dict_get data ''requestId'' = Inr rid
           \<and> payload = [(''success'', JBool True), (''outputUrl'', JStr ou)]
           \<and> store_writes (run_events wd data s) = [(rid, completed_fields ou)]
           \<and> docs s rid = Some d
           \<and> docs (snd (upscale wd data s)) rid = Some (d ++ map_of (completed_fields ou))))
   \<and> (fst (upscale wd data s) = Returned 400 payload \<longrightarrow> snd (upscale wd data s) = s)
   \<and> (dict_get data ''requestId'' = Inr rid \<and> dict_get data ''imageUrl'' = Inr url
        \<and> dict_get data ''userId'' = Inr uid \<and> truthy rid \<and> truthy url
        \<and> fst (produce wd rid url uid s) = Inl e \<longrightarrow>
        store_writes (run_events wd data s) = [(rid, failed_fields e)]
        \<and> docs (snd (upscale wd data s)) rid =
            (case docs s rid of
               None \<Rightarrow> None
             | Some d \<Rightarrow> if store_fault wd rid (failed_fields e) = None
                         then Some (d ++ map_of (failed_fields e)) else Some d))"
proof (cases rule: upscale_cases[of wd data s])
  case (reject b)
  then show ?thesis by (auto simp: run_events_def)
next
  case (unhandled x)
  then show ?thesis by (simp add: run_events_def)
next
  case (run rid' url' uid')
  obtain r s1 where t: "try_block wd rid' url' uid' s = (r, s1)"
    by (cases "try_block wd rid' url' uid' s")
  from try_block_frame[OF t, of k] obtain evs where
    F: "docs s1 k = None \<longleftrightarrow> docs s k = None" "k \<noteq> rid' \<longrightarrow> docs s1 k = docs s k"
       "trace s1 = trace s @ evs"
       "store_writes evs = [] \<or> (\<exists>ou. store_writes evs = [(rid', completed_fields ou)])"
    by auto
  show ?thesis
  proof (cases r)
    case (Inr ou)
    have up: "upscale wd data s =
           (Returned 200 [(''success'', JBool True), (''outputUrl'', JStr ou)], s1)"
      using upscale_run_success[OF run] t Inr by simp
    from try_block_success[OF t[unfolded Inr]] obtain h w d where
      S: "trace s1 = trace s @ [HttpGet url', Inference h w,
                   Upload (bucket_name wd) (blob_name wd uid' rid'),
                   MakePublic (bucket_name wd) (blob_name wd uid' rid'),
                   StoreUpdate rid' (completed_fields ou)]"
         "docs s rid' = Some d" "docs s1 rid' = Some (d ++ map_of (completed_fields ou))"
      by auto
    have ev: "run_events wd data s = [HttpGet url', Inference h w,
                   Upload (bucket_name wd) (blob_name wd uid' rid'),
                   MakePublic (bucket_name wd) (blob_name wd uid' rid'),
                   StoreUpdate rid' (completed_fields ou)]"
      using up S(1) by (simp add: run_events_def)
    have P: "fst (produce wd rid' url' uid' s) \<noteq> Inl e" for e
      using try_block_split[OF t] Inr by auto
    show ?thesis using up ev S F(1,2) run P by auto
  next
    case (Inl x)
    have up: "upscale wd data s = except_handler wd rid' x s1"
      using upscale_run_failure[OF run] t Inl by simp
    obtain r2 s2 where eh: "except_handler wd rid' x s1 = (r2, s2)"
      by (cases "except_handler wd rid' x s1")
    from except_handler_frame[OF eh] have
      E: "r2 = Returned 500 [(''error'', JStr (str_exn x))]"
         "trace s2 = trace s1 @ [StoreUpdate rid' (failed_fields x)]"
         "\<forall>k. k \<noteq> rid' \<longrightarrow> docs s2 k = docs s1 k"
         "docs s2 rid' =
            (case docs s1 rid' of
               None \<Rightarrow> None
             | Some d \<Rightarrow> if store_fault wd rid' (failed_fields x) = None
                         then Some (d ++ map_of (failed_fields x)) else Some d)"
      by simp_all
    have ev: "run_events wd data s = evs @ [StoreUpdate rid' (failed_fields x)]"
      using up eh E(2) F(3) by (simp add: run_events_def)
    have sw: "store_writes (run_events wd data s) = store_writes evs @ [(rid', failed_fields x)]"
      by (simp add: ev store_writes_append)
    have A: "docs s2 k = None \<longleftrightarrow> docs s k = None"
      using E(3,4) F(1) by (cases "k = rid'") (auto split: option.splits if_splits)
    have B: "dict_get data ''requestId'' \<noteq> Inr k \<longrightarrow> docs s2 k = docs s k"
      using E(3) F(2) run(1) by auto
    have C: "trace s2 = trace s @ run_events wd data s"
      using ev E(2) F(3) by simp
    have D: "(k, fs) \<in> set (store_writes (run_events wd data s)) \<longrightarrow>
        dict_get data ''requestId'' = Inr k \<and> terminal_fields fs"
      using sw F(4) run(1) by auto
    have G: "dict_get data ''requestId'' = Inr rid \<and> dict_get data ''imageUrl'' = Inr url
        \<and> dict_get data ''userId'' = Inr uid \<and> truthy rid \<and> truthy url
        \<and> fst (produce wd rid url uid s) = Inl e \<longrightarrow>
        store_writes (run_events wd data s) = [(rid, failed_fields e)]
        \<and> docs s2 rid =
            (case docs s rid of
               None \<Rightarrow> None
             | Some d \<Rightarrow> if store_fault wd rid (failed_fields e) = None
                         then Some (d ++ map_of (failed_fields e)) else Some d)"
    proof (intro impI, elim conjE)
      assume h: "dict_get data ''requestId'' = Inr rid" "dict_get data ''imageUrl'' = Inr url"
        "dict_get data ''userId'' = Inr uid" "fst (produce wd rid url uid s) = Inl e"
      have eq: "rid = rid'" "url = url'" "uid = uid'" using h run by simp_all
      obtain s3 where p: "produce wd rid' url' uid' s = (Inl e, s3)"
        using h(4) eq by (cases "produce wd rid' url' uid' s") simp
      have t': "try_block wd rid' url' uid' s = (Inl e, s3)" using p by (rule try_block_produce_fails)
      then have xe: "x = e" "s1 = s3" using t Inl by simp_all
      from produce_frame[OF p] obtain evs' where
        pf: "docs s3 = docs s" "trace s3 = trace s @ evs'" "store_writes evs' = []" by auto
      have "evs = evs'" using pf(2) F(3) xe by simp
      then have "store_writes (run_events wd data s) = [(rid, failed_fields e)]"
        using sw pf(3) xe eq by simp
      moreover have "docs s2 rid =
            (case docs s rid of
               None \<Rightarrow> None
             | Some d \<Rightarrow> if store_fault wd rid (failed_fields e) = None
                         then Some (d ++ map_of (failed_fields e)) else Some d)"
        using E(4) pf(1) unfolding xe eq by simp
      ultimately show "store_writes (run_events wd data s) = [(rid, failed_fields e)]
        \<and> docs s2 rid =
            (case docs s rid of
               None \<Rightarrow> None
             | Some d \<Rightarrow> if store_fault wd rid (failed_fields e) = None
                         then Some (d ++ map_of (failed_fields e)) else Some d)"
        by simp
    qed
    have R: "fst (upscale wd data s) = r2" "snd (upscale wd data s) = s2" using up eh by simp_all
    show ?thesis unfolding R using A B C D G E(1) by simp
  qed
qed

text \<open>
  Claim C7. The claim says that a run mutates the status record exactly once, to a terminal
  state, and in particular never writes completed and then failed. The cleanup of lines 107
  to 109 stands inside the \<^verbatim>\<open>try\<close> block, after the completed write of lines 100 to 105.
  When \<^verbatim>\<open>os.remove\<close> raises there, the \<^verbatim>\<open>except\<close> handler writes failed over the record that
  was just completed: the run below uploads the blob, writes completed, fails to remove the
  input file, writes failed and answers 500. The record ends failed and still holds the
  outputUrl of the uploaded blob.
\<close>

theorem completed_then_failed:
  "fst (upscale world_cleanup_fails sample_request sample_state) =
     Returned 500 [(''error'', JStr (str_exn (permission_denied ''/tmp/in.png'')))]
   \<and> store_writes (run_events world_cleanup_fails sample_request sample_state) =
       [(JStr ''r1'',
         completed_fields ''https://storage.googleapis.com/bkt/users/u1/upscaled/r1.jpg''),
        (JStr ''r1'', failed_fields (permission_denied ''/tmp/in.png''))]
   \<and> map_option (\<lambda>d. d ''status'')
        (docs (snd (upscale world_cleanup_fails sample_request sample_state)) (JStr ''r1'')) =
       Some (Some (FStr ''failed''))
   \<and> map_option (\<lambda>d. d ''outputUrl'')
        (docs (snd (upscale world_cleanup_fails sample_request sample_state)) (JStr ''r1'')) =
       Some (Some (FStr ''https://storage.googleapis.com/bkt/users/u1/upscaled/r1.jpg''))"
  by (simp add: world_defs stage_defs)

theorem completed_then_failed_witness:
  "length (store_writes (run_events world_cleanup_fails sample_request sample_state)) = 2"
  using completed_then_failed by simp

section \<open>The output blob\<close>

text \<open>
  Claim C8, as the code has it. The claim says that the blob path is
  \<^verbatim>\<open>users/{userId}/upscaled/{requestId}.jpg\<close> with userId defaulting to the empty string.
  \<^verbatim>\<open>data.get('userId')\<close> has no default, so an absent userId is \<^verbatim>\<open>None\<close> and the f-string
  renders it as "None": the blob is written to \<^verbatim>\<open>users/None/upscaled/r1.jpg\<close>.
\<close>

theorem blob_path_counterexample:
  "dict_get request_no_user ''userId'' = Inr JNull
   \<and> fst (upscale sample_world request_no_user sample_state) =
       Returned 200 [(''success'', JBool True),
         (''outputUrl'', JStr ''https://storage.googleapis.com/bkt/users/None/upscaled/r1.jpg'')]
   \<and> uploads (run_events sample_world request_no_user sample_state) =
       [(''bkt'', ''users/None/upscaled/r1.jpg'')]"
  by (simp add: world_defs stage_defs)

text \<open>
  Claim C8, amended. For every successful run there is exactly one upload, to the blob
  \<^verbatim>\<open>users/{userId}/upscaled/{requestId}.jpg\<close> of the configured bucket, where both ids are
  rendered as Python's f-string renders them; the blob is public with content type image/jpeg
  and the response carries its public URL. The path is a function of userId and requestId
  alone: for string ids it is \<^verbatim>\<open>users/u/upscaled/r.jpg\<close>, and when userId is absent it is
  \<^verbatim>\<open>users/None/upscaled/r.jpg\<close>.
\<close>

theorem blob_path_deterministic:
  assumes v: "dict_get data ''requestId'' = Inr rid" "dict_get data ''userId'' = Inr uid"
    and ok: "fst (upscale wd data s) = Returned 200 payload"
  shows "uploads (run_events wd data s) = [(bucket_name wd, blob_name wd uid rid)]
     \<and> (\<exists>bs. blobs (snd (upscale wd data s)) (bucket_name wd, blob_name wd uid rid) =
             Some \<lparr>content = bs, content_type = ''image/jpeg'', is_public = True\<rparr>)
     \<and> payload = [(''success'', JBool True),
                  (''outputUrl'', JStr (public_url wd (bucket_name wd) (blob_name wd uid rid)))]
     \<and> (\<forall>r u. rid = JStr r \<longrightarrow> uid = JStr u \<longrightarrow>
           blob_name wd uid rid = ''users/'' @ u @ ''/upscaled/'' @ r @ ''.jpg'')
     \<and> (\<forall>r. rid = JStr r \<longrightarrow> uid = JNull \<longrightarrow>
           blob_name wd uid rid = ''users/None/upscaled/'' @ r @ ''.jpg'')"
proof (cases rule: upscale_cases[of wd data s])
  case (reject b)
  then show ?thesis using ok by simp
next
  case (unhandled x)
  then show ?thesis using ok by simp
next
  case (run rid' url' uid')
  have eq: "rid' = rid" "uid' = uid" using run v by simp_all
  obtain r s1 where t: "try_block wd rid url' uid s = (r, s1)"
    by (cases "try_block wd rid url' uid s")
  show ?thesis
  proof (cases r)
    case (Inl x)
    then show ?thesis
      using upscale_run_failure[OF run[unfolded eq] t[unfolded Inl], of ] ok
      by (simp add: except_handler_def)
  next
    case (Inr ou)
    have up: "upscale wd data s =
           (Returned 200 [(''success'', JBool True), (''outputUrl'', JStr ou)], s1)"
      using upscale_run_success[OF run[unfolded eq] t[unfolded Inr]] .
    from try_block_success[OF t[unfolded Inr]] obtain h w bs where
      S: "ou = public_url wd (bucket_name wd) (blob_name wd uid rid)"
         "trace s1 = trace s @ [HttpGet url', Inference h w,
                   Upload (bucket_name wd) (blob_name wd uid rid),
                   MakePublic (bucket_name wd) (blob_name wd uid rid),
                   StoreUpdate rid (completed_fields ou)]"
         "blobs s1 (bucket_name wd, blob_name wd uid rid) =
             Some \<lparr>content = bs, content_type = ''image/jpeg'', is_public = True\<rparr>"
      by auto
    have "uploads (run_events wd data s) = [(bucket_name wd, blob_name wd uid rid)]"
      using up S(2) by (simp add: run_events_def)
    moreover have "payload = [(''success'', JBool True),
                  (''outputUrl'', JStr (public_url wd (bucket_name wd) (blob_name wd uid rid)))]"
      using up ok S(1) by simp
    ultimately show ?thesis using up S(3) by (simp add: blob_name_def format_value_def)
  qed
qed

theorem blob_path_deterministic_witness:
  "fst (upscale sample_world sample_request sample_state) =
     Returned 200 [(''success'', JBool True),
       (''outputUrl'', JStr ''https://storage.googleapis.com/bkt/users/u1/upscaled/r1.jpg'')]
   \<and> uploads (run_events sample_world sample_request sample_state) =
       [(''bkt'', ''users/u1/upscaled/r1.jpg'')]"
proof -
  have a: "fst (upscale sample_world sample_request sample_state) =
     Returned 200 [(''success'', JBool True),
       (''outputUrl'', JStr ''https://storage.googleapis.com/bkt/users/u1/upscaled/r1.jpg'')]"
    by (simp add: world_defs stage_defs)
  have v: "dict_get sample_request ''requestId'' = Inr (JStr ''r1'')"
    "dict_get sample_request ''userId'' = Inr (JStr ''u1'')"
    by (simp_all add: sample_request_def)
  have n: "bucket_name sample_world = ''bkt''"
    "blob_name sample_world (JStr ''u1'') (JStr ''r1'') = ''users/u1/upscaled/r1.jpg''"
    by (simp_all add: bucket_name_def blob_name_def format_value_def sample_world_def)
  from blob_path_deterministic[OF v a]
  have "uploads (run_events sample_world sample_request sample_state) =
          [(bucket_name sample_world, blob_name sample_world (JStr ''u1'') (JStr ''r1''))]"
    by (rule conjunct1)
  then have "uploads (run_events sample_world sample_request sample_state) =
       [(''bkt'', ''users/u1/upscaled/r1.jpg'')]"
    by (simp only: n)
  with a show ?thesis by (rule conjI)
qed

section \<open>Temporary files\<close>

text \<open>
  Claim C9. The claim says that the temporary files of a run are released on every exit path.
  The handler removes them only at the end of the \<^verbatim>\<open>try\<close> block (lines 107 to 109); the
  \<^verbatim>\<open>except\<close> handler removes nothing. When the downloaded body does not decode, the run ends
  with status 500 and the input file, which did not exist before, is still on disk.
\<close>

theorem temp_file_left_on_failure:
  "fst (upscale world_undecodable sample_request sample_state) =
     Returned 500 [(''error'', JStr (str_exn (no_attribute ''NoneType'' ''shape'')))]
   \<and> files sample_state ''/tmp/in.png'' = None
   \<and> files (snd (upscale world_undecodable sample_request sample_state)) ''/tmp/in.png'' =
       Some [1, 2, 3]"
  by (simp add: world_defs stage_defs)

theorem temp_file_left_on_failure_witness:
  "files (snd (upscale world_undecodable sample_request sample_state)) ''/tmp/in.png'' \<noteq>
     files sample_state ''/tmp/in.png''"
  using temp_file_left_on_failure by simp

end
